theory Spec2Isabelle
  imports Main "HOL-Library.Sublist"
begin

section \<open>Python string operations used by the routes\<close>

text \<open>
  A Python \<open>str\<close> is modelled as a \<open>string\<close>, whose characters are bytes. The three
  characters beyond ASCII that occur in the literals of \<open>main.py\<close> (the rupee sign, the
  right single quote and the en dash) are written as their UTF-8 bytes.
  The classes of characters below are those of ASCII: white space is what \<open>str.isspace\<close>
  accepts below 128 (the codes 9 to 13 and 28 to 32), the digits are \<open>0\<close> to \<open>9\<close>, the
  cased letters are \<open>A\<close> to \<open>Z\<close> and \<open>a\<close> to \<open>z\<close>, and a byte above 127 belongs to none
  of them. Python follows the Unicode tables there: \<open>str.strip\<close> and \<open>str.split\<close> also
  cut at white space such as U+00A0, \<open>\d\<close> and \<open>int\<close> also read the decimal digits of
  other scripts, and \<open>str.lower\<close> and \<open>str.title\<close> also change the case of letters beyond
  ASCII. So \<open>strip\<close>, \<open>split_ws\<close>, \<open>findall_digits\<close>, \<open>lower\<close> and \<open>title\<close> are the
  Python functions on ASCII texts, and the results that evaluate them are stated on ASCII
  texts.
\<close>

definition is_space :: "char \<Rightarrow> bool" where
  "is_space c = ((9 \<le> (of_char c :: nat) \<and> (of_char c :: nat) \<le> 13)
                 \<or> (28 \<le> (of_char c :: nat) \<and> (of_char c :: nat) \<le> 32))"

definition is_digit :: "char \<Rightarrow> bool" where
  "is_digit c = (48 \<le> (of_char c :: nat) \<and> (of_char c :: nat) \<le> 57)"

definition is_upper :: "char \<Rightarrow> bool" where
  "is_upper c = (65 \<le> (of_char c :: nat) \<and> (of_char c :: nat) \<le> 90)"

definition is_lower :: "char \<Rightarrow> bool" where
  "is_lower c = (97 \<le> (of_char c :: nat) \<and> (of_char c :: nat) \<le> 122)"

definition is_cased :: "char \<Rightarrow> bool" where
  "is_cased c = (is_upper c \<or> is_lower c)"

text \<open>
  A letter and its other case differ by 32, which is bit 5 of the code: clear in
  \<open>A\<close> to \<open>Z\<close> (65 to 90), set in \<open>a\<close> to \<open>z\<close> (97 to 122).
\<close>

fun with_bit5 :: "bool \<Rightarrow> char \<Rightarrow> char" where
  "with_bit5 b (Char b0 b1 b2 b3 b4 b5 b6 b7) = Char b0 b1 b2 b3 b4 b b6 b7"

definition lower_char :: "char \<Rightarrow> char" where
  "lower_char c = (if is_upper c then with_bit5 True c else c)"

definition upper_char :: "char \<Rightarrow> char" where
  "upper_char c = (if is_lower c then with_bit5 False c else c)"

text \<open>\<open>s.lower()\<close>\<close>

definition lower :: "string \<Rightarrow> string" where
  "lower s = map lower_char s"

text \<open>\<open>s.strip()\<close>: white space is dropped from both ends.\<close>

definition strip :: "string \<Rightarrow> string" where
  "strip s = rev (dropWhile is_space (rev (dropWhile is_space s)))"

text \<open>\<open>k in s\<close> on strings: \<open>k\<close> occurs in \<open>s\<close> as a contiguous substring.\<close>

fun contains :: "string \<Rightarrow> string \<Rightarrow> bool" where
  "contains k [] = (k = [])"
| "contains k (c # cs) = (prefix k (c # cs) \<or> contains k cs)"

text \<open>
  \<open>s.split(sep, 1)\<close> for a non-empty separator: the text is cut at the first,
  case-sensitive occurrence of \<open>sep\<close>; without one the result is the one-element list
  \<open>[s]\<close>. The result is never empty.
\<close>

fun split1 :: "string \<Rightarrow> string \<Rightarrow> string list" where
  "split1 sep [] = [[]]"
| "split1 sep (c # cs) =
     (if prefix sep (c # cs) then [[], drop (length sep) (c # cs)]
      else (c # hd (split1 sep cs)) # tl (split1 sep cs))"

text \<open>
  The maximal runs of characters satisfying \<open>P\<close>, from left to right. With
  \<open>P\<close> = "not white space" this is \<open>s.split()\<close>; with \<open>P\<close> = "digit" it is
  \<open>re.findall(r"\d+", s)\<close>.
\<close>

fun runs_acc :: "(char \<Rightarrow> bool) \<Rightarrow> string \<Rightarrow> string \<Rightarrow> string list" where
  "runs_acc P cur [] = (if cur = [] then [] else [cur])"
| "runs_acc P cur (c # cs) =
     (if P c then runs_acc P (cur @ [c]) cs
      else if cur = [] then runs_acc P [] cs
      else cur # runs_acc P [] cs)"

definition split_ws :: "string \<Rightarrow> string list" where
  "split_ws s = runs_acc (\<lambda>c. \<not> is_space c) [] s"

definition findall_digits :: "string \<Rightarrow> string list" where
  "findall_digits s = runs_acc is_digit [] s"

text \<open>\<open>sep.join(ws)\<close>\<close>

fun join :: "string \<Rightarrow> string list \<Rightarrow> string" where
  "join sep [] = []"
| "join sep [w] = w"
| "join sep (w # v # ws) = w @ sep @ join sep (v # ws)"

text \<open>
  \<open>s.title()\<close>: a cased letter is put in upper case when the character before it is
  not a cased letter (or there is none), and in lower case otherwise.
\<close>

fun title_from :: "bool \<Rightarrow> string \<Rightarrow> string" where
  "title_from prev [] = []"
| "title_from prev (c # cs) =
     (if is_cased c then (if prev then lower_char c else upper_char c) # title_from True cs
      else c # title_from False cs)"

definition title :: "string \<Rightarrow> string" where
  "title s = title_from False s"

text \<open>\<open>int(ds)\<close> on a run of decimal digits.\<close>

definition digit_val :: "char \<Rightarrow> nat" where
  "digit_val c = of_char c - 48"

definition int_of_digits :: "string \<Rightarrow> nat" where
  "int_of_digits ds = foldl (\<lambda>a c. 10 * a + digit_val c) 0 ds"

text \<open>\<open>str(n)\<close> and \<open>f"{n:,}"\<close> for a non-negative integer.\<close>

fun show_nat :: "nat \<Rightarrow> string" where
  "show_nat n =
     (if n < 10 then [''0123456789'' ! n]
      else show_nat (n div 10) @ [''0123456789'' ! (n mod 10)])"

declare show_nat.simps [simp del]

definition pad3 :: "nat \<Rightarrow> string" where
  "pad3 n = [''0123456789'' ! (n div 100 mod 10), ''0123456789'' ! (n div 10 mod 10),
             ''0123456789'' ! (n mod 10)]"

fun commas :: "nat \<Rightarrow> string" where
  "commas n =
     (if n < 1000 then show_nat n
      else commas (n div 1000) @ '','' @ pad3 (n mod 1000))"

declare commas.simps [simp del]

definition rupee :: string where
  "rupee = [CHR 0xE2, CHR 0x82, CHR 0xB9]"

definition rsquo :: string where
  "rsquo = [CHR 0xE2, CHR 0x80, CHR 0x99]"

definition ndash :: string where
  "ndash = [CHR 0xE2, CHR 0x80, CHR 0x93]"

definition nl :: string where
  "nl = [CHR 0x0A]"


section \<open>The session document (\<open>schemas.py\<close>)\<close>

text \<open>
  Amounts are natural numbers: the schema constrains \<open>monthly_income\<close> and
  \<open>requested_amount\<close> by \<open>ge=0\<close>, and \<open>parse_int\<close> only ever reads a run of digits.
  \<open>None\<close> stands for Python's \<open>None\<close> (and for an empty \<open>kyc\<close> dictionary).
  The offer dictionary is a record of optional entries, one for each key the routes write;
  the empty dictionary has no entry.
  The two rates the code stores are the float literals \<open>14.0\<close> and \<open>16.0\<close>: a rate is
  kept as a decimal with one fractional digit, counted in tenths, so that \<open>Tenths 140\<close>
  is \<open>14.0\<close>.
  \<open>customer_name\<close> is read with \<open>s.get("customer_name", "Customer")\<close>, which tells a
  missing key from a key holding \<open>None\<close>, so the field has the three cases.
\<close>

datatype decimal = Tenths nat

datatype name_field = Missing | PyNone | Str string

record message =
  role :: string
  content :: string
  timestamp :: nat

record kyc_rec =
  pan :: string
  aadhaar :: string
  verified :: bool

record offer_rec =
  requested :: "nat option"
  approved :: "nat option"
  rate :: "decimal option"
  tenure_months :: "nat option"
  processing_fee :: "nat option"
  status :: "string option"
  letter :: "string option"

record session =
  stage :: string
  customer_name :: name_field
  monthly_income :: "nat option"
  requested_amount :: "nat option"
  kyc :: "kyc_rec option"
  offer :: offer_rec
  messages :: "message option list"

definition empty_offer :: offer_rec where
  "empty_offer = \<lparr>requested = None, approved = None, rate = None, tenure_months = None,
                   processing_fee = None, status = None, letter = None\<rparr>"

text \<open>\<open>Session()\<close> with the defaults of the schema.\<close>

definition new_session :: session where
  "new_session = \<lparr>stage = ''intro'', customer_name = PyNone, monthly_income = None,
                   requested_amount = None, kyc = None, offer = empty_offer, messages = []\<rparr>"

text \<open>The five stages in their order; any other string is not a defined stage.\<close>

definition stage_rank :: "string \<Rightarrow> nat option" where
  "stage_rank st =
     (if st = ''intro'' then Some 0
      else if st = ''verification'' then Some 1
      else if st = ''underwriting'' then Some 2
      else if st = ''sanction'' then Some 3
      else if st = ''complete'' then Some 4
      else None)"

datatype error = IndexError | InvalidFileType string | FileTooSmall string


section \<open>Helpers of \<open>main.py\<close>\<close>

text \<open>\<open>system_message\<close>; the clock value \<open>_now()\<close> is passed in.\<close>

definition system_message :: "nat \<Rightarrow> string \<Rightarrow> message" where
  "system_message now text = \<lparr>role = ''assistant'', content = text, timestamp = now\<rparr>"

text \<open>The update \<open>{"$push": {"messages": m}}\<close>; a \<open>None\<close> reply is pushed as a null.\<close>

definition push_message :: "message option \<Rightarrow> session \<Rightarrow> session" where
  "push_message m s = s\<lparr>messages := messages s @ [m]\<rparr>"

text \<open>
  \<open>parse_int\<close> (lines 108-116): commas are removed and the first run of digits is read
  as an integer. \<open>int\<close> raises \<open>ValueError\<close> on a run of more than 4300 digits (the
  default limit of the conversion from text); the \<open>except\<close> branch then returns
  \<open>None\<close>.
\<close>

definition max_str_digits :: nat where
  "max_str_digits = 4300"

definition parse_int :: "string \<Rightarrow> nat option" where
  "parse_int text =
     (case findall_digits (filter (\<lambda>c. c \<noteq> CHR '','') text) of
        [] \<Rightarrow> None
      | n # _ \<Rightarrow> if max_str_digits < length n then None else Some (int_of_digits n))"

text \<open>The subscript \<open>xs[1]\<close>, which raises \<open>IndexError\<close> on a list shorter than two.\<close>

definition item1 :: "string list \<Rightarrow> error + string" where
  "item1 xs = (case xs of a # b # _ \<Rightarrow> Inr b | _ \<Rightarrow> Inl IndexError)"

text \<open>
  Lines 142-149 of \<open>chat_send\<close>: the keyword is looked for in the lowered text, the
  split is made on the text as typed.
\<close>

definition extract_name :: "string \<Rightarrow> error + string option" where
  "extract_name text =
     (let tl = lower text in
      if contains ''name is'' tl then
        (case item1 (split1 ''is'' text) of Inl e \<Rightarrow> Inl e | Inr n \<Rightarrow> Inr (Some (strip n)))
      else if contains ''i am'' tl then
        (case item1 (split1 ''i am'' text) of Inl e \<Rightarrow> Inl e | Inr n \<Rightarrow> Inr (Some (strip n)))
      else if contains ''i'm'' tl then
        (case item1 (split1 ''i'm'' text) of Inl e \<Rightarrow> Inl e | Inr n \<Rightarrow> Inr (Some (strip n)))
      else Inr None)"


section \<open>The offer letter (lines 265-278)\<close>

definition offer_is_empty :: "offer_rec \<Rightarrow> bool" where
  "offer_is_empty off = (off = empty_offer)"

text \<open>\<open>offer.get(key, 0)\<close> for the integer entries.\<close>

definition get0 :: "nat option \<Rightarrow> nat" where
  "get0 v = (case v of None \<Rightarrow> 0 | Some n \<Rightarrow> n)"

text \<open>\<open>str\<close> of a float with one fractional digit.\<close>

fun show_decimal :: "decimal \<Rightarrow> string" where
  "show_decimal (Tenths t) = show_nat (t div 10) @ ''.'' @ show_nat (t mod 10)"

definition show_rate :: "decimal option \<Rightarrow> string" where
  "show_rate r = (case r of None \<Rightarrow> ''0'' | Some d \<Rightarrow> show_decimal d)"

text \<open>\<open>today\<close> is \<open>str(datetime.utcnow().date())\<close>.\<close>

definition generate_offer_letter :: "string \<Rightarrow> offer_rec \<Rightarrow> string \<Rightarrow> string" where
  "generate_offer_letter name off today =
     (if offer_is_empty off then ''No offer available.''
      else ''LoanLens AI '' @ ndash @ '' Sanction Letter'' @ nl @ nl
         @ ''Date: '' @ today @ nl
         @ ''To, '' @ name @ nl @ nl
         @ ''We are pleased to sanction a personal loan with the following terms:'' @ nl
         @ ''Approved Amount: '' @ rupee @ commas (get0 (approved off)) @ nl
         @ ''Interest Rate: '' @ show_rate (rate off) @ ''% p.a.'' @ nl
         @ ''Tenure: '' @ show_nat (get0 (tenure_months off)) @ '' months'' @ nl
         @ ''Processing Fee: '' @ rupee @ commas (get0 (processing_fee off)) @ nl @ nl
         @ ''This is a system-generated letter and does not require a signature.'' @ nl)"

text \<open>\<open>s.get("customer_name", "Customer")\<close> as it is formatted into the letter.\<close>

definition name_text :: "name_field \<Rightarrow> string" where
  "name_text n = (case n of Missing \<Rightarrow> ''Customer'' | PyNone \<Rightarrow> ''None'' | Str x \<Rightarrow> x)"


section \<open>The chat route (\<open>chat_send\<close>, lines 119-217)\<close>

text \<open>
  The route is modelled on the session document it has found: looking the session up by
  its id, and the errors of that step, belong to the document store. A turn returns the
  document as the store holds it when the route ends, together with the response or the
  exception raised. The branches of the stage dispatch are given one definition each.
  \<open>now\<close> is the value of \<open>_now()\<close> at the reply, \<open>db\<close> the stored document (the user's
  message already pushed) and \<open>snap\<close> the document as read at line 128.
\<close>

definition kyc_request :: string where
  "kyc_request = ''Great. To proceed, please upload your KYC: PAN and Aadhaar. You can upload images (JPG/PNG) or PDF.''"

definition ask_name_amount :: string where
  "ask_name_amount = ''Got it. Please share your full name and the loan amount you need (e.g., 500000).''"

definition kyc_reminder :: string where
  "kyc_reminder = ''Awaiting KYC documents. Upload PAN and Aadhaar to continue.''"

definition ask_income :: string where
  "ask_income = ''Please share your monthly income (e.g., 30000).''"

definition eligible_reply :: "nat \<Rightarrow> string" where
  "eligible_reply a = ''You're eligible. Approved amount: '' @ rupee @ commas a
                        @ ''. Shall I generate your sanction letter?''"

definition rejected_reply :: string where
  "rejected_reply = ''Based on your income, we can'' @ rsquo
                      @ ''t approve the requested amount at this time.''"

definition letter_ready :: string where
  "letter_ready = ''Sanction letter generated. You can download it now.''"

definition say_yes :: string where
  "say_yes = ''Say 'yes' to generate your sanction letter.''"

definition how_else :: string where
  "how_else = ''Your application is complete. How else can I help today?''"

text \<open>Python's truth value of an optional string and of an optional integer.\<close>

definition truthy_str :: "string option \<Rightarrow> bool" where
  "truthy_str v = (case v of None \<Rightarrow> False | Some x \<Rightarrow> x \<noteq> [])"

definition truthy_nat :: "nat option \<Rightarrow> bool" where
  "truthy_nat v = (case v of None \<Rightarrow> False | Some n \<Rightarrow> n \<noteq> 0)"

text \<open>Line 152: the name as it is stored.\<close>

definition format_name :: "string \<Rightarrow> string" where
  "format_name n = title (join '' '' (take 3 (split_ws n)))"

text \<open>Lines 140-165.\<close>

definition chat_intro :: "nat \<Rightarrow> string \<Rightarrow> session \<Rightarrow> session \<times> (error + message option)" where
  "chat_intro now text db =
     (let amt = parse_int text in
      case extract_name text of
        Inl e \<Rightarrow> (db, Inl e)
      | Inr name \<Rightarrow>
          (let db1 = (if truthy_str name
                      then db\<lparr>customer_name := Str (format_name (the name))\<rparr> else db);
               db2 = (if truthy_nat amt then db1\<lparr>requested_amount := amt\<rparr> else db1)
           in if truthy_nat amt \<or> truthy_str name
              then (db2\<lparr>stage := ''verification''\<rparr>, Inr (Some (system_message now kyc_request)))
              else (db2, Inr (Some (system_message now ask_name_amount)))))"

text \<open>
  Lines 176-187. \<open>int(approved * 0.01)\<close> is the float product cut to an integer; for the
  amounts that can occur (at most 500000) it equals the integer quotient by 100.
\<close>

definition make_offer :: "nat \<Rightarrow> nat option \<Rightarrow> offer_rec" where
  "make_offer income req_amount =
     (let max_amount = min (income * 20) 500000;
          req = (if truthy_nat req_amount then the req_amount else max_amount);
          appr = min req max_amount;
          st = (if income \<ge> 25000 \<and> appr > 0 then ''approved'' else ''rejected'')
      in \<lparr>requested = Some req,
          approved = Some appr,
          rate = Some (if appr \<ge> 300000 then Tenths 140 else Tenths 160),
          tenure_months = Some (if appr \<ge> 300000 then 48 else 36),
          processing_fee = Some (max 1999 (appr div 100)),
          status = Some st,
          letter = None\<rparr>)"

text \<open>Lines 172-198.\<close>

definition chat_underwriting ::
  "nat \<Rightarrow> string \<Rightarrow> session \<Rightarrow> session \<Rightarrow> session \<times> (error + message option)" where
  "chat_underwriting now text snap db =
     (let income = parse_int text in
      if truthy_nat income then
        (let db1 = db\<lparr>monthly_income := income\<rparr>;
             off = make_offer (the income) (requested_amount snap);
             db2 = db1\<lparr>offer := off, stage := ''sanction''\<rparr>
         in if status off = Some ''approved''
            then (db2, Inr (Some (system_message now (eligible_reply (get0 (approved off))))))
            else (db2, Inr (Some (system_message now rejected_reply))))
      else (db, Inr (Some (system_message now ask_income))))"

definition confirm_words :: "string list" where
  "confirm_words = [''yes'', ''ok'', ''proceed'', ''generate'', ''sure'']"

text \<open>Lines 200-209; \<open>today\<close> is the date the letter is rendered with.\<close>

definition chat_sanction ::
  "nat \<Rightarrow> string \<Rightarrow> string \<Rightarrow> session \<Rightarrow> session \<times> (error + message option)" where
  "chat_sanction now today text db =
     (if list_ex (\<lambda>k. contains k (lower text)) confirm_words then
        (let doc = generate_offer_letter (name_text (customer_name db)) (offer db) today
         in (db\<lparr>offer := (offer db)\<lparr>letter := Some doc\<rparr>, stage := ''complete''\<rparr>,
             Inr (Some (system_message now letter_ready))))
      else (db, Inr (Some (system_message now say_yes))))"

record response =
  reply :: "message option"
  new_stage :: string

definition chat_send ::
  "nat \<Rightarrow> nat \<Rightarrow> string \<Rightarrow> session \<Rightarrow> string \<Rightarrow> session \<times> (error + response)" where
  "chat_send t_user t_reply today snap msg =
     (let db = push_message (Some \<lparr>role = ''user'', content = msg, timestamp = t_user\<rparr>) snap;
          st = stage snap;
          text = strip msg
      in case (if st = ''intro'' then chat_intro t_reply text db
               else if st = ''verification'' then
                 (db, Inr (Some (system_message t_reply kyc_reminder)))
               else if st = ''underwriting'' then chat_underwriting t_reply text snap db
               else if st = ''sanction'' then chat_sanction t_reply today text db
               else if st = ''complete'' then (db, Inr (Some (system_message t_reply how_else)))
               else (db, Inr None)) of
           (db', Inl e) \<Rightarrow> (db', Inl e)
         | (db', Inr r) \<Rightarrow>
             (push_message r db', Inr \<lparr>reply = r, new_stage = stage (push_message r db')\<rparr>))"


section \<open>The upload and sanction routes\<close>

record upload_file =
  filename :: string
  content_type :: string
  content_length :: nat

definition allowed :: "string list" where
  "allowed = [''image/jpeg'', ''image/png'', ''application/pdf'']"

text \<open>Lines 227-232: the first file that fails a check raises.\<close>

fun check_files :: "upload_file list \<Rightarrow> error option" where
  "check_files [] = None"
| "check_files (f # fs) =
     (if content_type f \<notin> set allowed then Some (InvalidFileType (filename f))
      else if content_length f < 10 * 1024 then Some (FileTooSmall (filename f))
      else check_files fs)"

definition kyc_verified :: string where
  "kyc_verified = ''KYC verified successfully. What'' @ rsquo @ ''s your monthly income?''"

text \<open>Lines 220-247, on the session found.\<close>

definition verification_upload ::
  "nat \<Rightarrow> session \<Rightarrow> upload_file \<Rightarrow> upload_file \<Rightarrow> session \<times> (error + message)" where
  "verification_upload now db pan_file aadhaar_file =
     (case check_files [pan_file, aadhaar_file] of
        Some e \<Rightarrow> (db, Inl e)
      | None \<Rightarrow>
          (let db1 = db\<lparr>kyc := Some \<lparr>pan = filename pan_file, aadhaar = filename aadhaar_file,
                                      verified = True\<rparr>,
                         stage := ''underwriting''\<rparr>
           in (push_message (Some (system_message now kyc_verified)) db1,
               Inr (system_message now kyc_verified))))"

text \<open>Lines 250-260, on the session found; the result is the letter.\<close>

definition generate_sanction :: "string \<Rightarrow> session \<Rightarrow> session \<times> string" where
  "generate_sanction today db =
     (let doc = generate_offer_letter (name_text (customer_name db)) (offer db) today
      in (db\<lparr>offer := (offer db)\<lparr>letter := Some doc\<rparr>, stage := ''complete''\<rparr>, doc))"

text \<open>Lines 87-96: the new session with the welcome message pushed.\<close>

definition welcome_text :: string where
  "welcome_text = ''Hi! I'' @ rsquo @ ''m your loan assistant. What'' @ rsquo
               @ ''s your full name and the loan amount you'' @ rsquo @ ''re looking for?''"

definition start_session :: "nat \<Rightarrow> session" where
  "start_session now = push_message (Some (system_message now welcome_text)) new_session"

text \<open>The operations on a session, and a sequence of them run from left to right.\<close>

datatype operation =
    ChatSend nat nat string string
  | KycUpload nat upload_file upload_file
  | GenerateSanction string

fun apply_op :: "operation \<Rightarrow> session \<Rightarrow> session" where
  "apply_op (ChatSend t_user t_reply today msg) s = fst (chat_send t_user t_reply today s msg)"
| "apply_op (KycUpload now p a) s = fst (verification_upload now s p a)"
| "apply_op (GenerateSanction today) s = fst (generate_sanction today s)"

fun run :: "operation list \<Rightarrow> session \<Rightarrow> session" where
  "run [] s = s"
| "run (x # xs) s = run xs (apply_op x s)"

text \<open>
  A sequence of operations in which every KYC upload reaches the session before its stage
  is \<open>sanction\<close> or \<open>complete\<close>.
\<close>

fun is_upload :: "operation \<Rightarrow> bool" where
  "is_upload (KycUpload now p a) = True"
| "is_upload (ChatSend t_user t_reply today msg) = False"
| "is_upload (GenerateSanction today) = False"

fun uploads_before_sanction :: "operation list \<Rightarrow> session \<Rightarrow> bool" where
  "uploads_before_sanction [] s = True"
| "uploads_before_sanction (x # xs) s =
     ((if is_upload x then stage s \<noteq> ''sanction'' \<and> stage s \<noteq> ''complete'' else True)
      \<and> uploads_before_sanction xs (apply_op x s))"


section \<open>Evaluation\<close>

lemmas str_defs = is_space_def is_digit_def is_upper_def is_lower_def is_cased_def
  lower_char_def upper_char_def lower_def strip_def split_ws_def findall_digits_def title_def
  digit_val_def int_of_digits_def pad3_def rupee_def rsquo_def ndash_def nl_def
  show_nat.simps commas.simps

lemmas route_defs = system_message_def push_message_def max_str_digits_def parse_int_def
  item1_def extract_name_def
  offer_is_empty_def get0_def show_rate_def generate_offer_letter_def name_text_def
  truthy_str_def truthy_nat_def format_name_def chat_intro_def make_offer_def
  chat_underwriting_def confirm_words_def chat_sanction_def chat_send_def
  verification_upload_def generate_sanction_def start_session_def new_session_def empty_offer_def
  allowed_def stage_rank_def Let_def


section \<open>A chat turn that raises\<close>

text \<open>
  Claim C1 says that a chat turn on a session in a defined stage never raises, and that in
  stage \<open>intro\<close> the name extraction completes for every text whose lower-cased form
  contains \<open>name is\<close>, \<open>i am\<close> or \<open>i'm\<close>. The code looks for the keyword in
  \<open>text.lower()\<close> but splits the text as typed: on the new session, the message
  \<open>I am Bob\<close> contains \<open>i am\<close> after lowering, the split of the typed text on
  \<open>i am\<close> has one element, and the subscript \<open>[1]\<close> raises \<open>IndexError\<close>.
  The user's message has been stored by then; nothing else of the session has changed.
\<close>

theorem i_am_raises_index_error:
  "chat_send 1 2 ''2026-01-01'' new_session ''I am Bob'' =
     (new_session\<lparr>messages := [Some \<lparr>role = ''user'', content = ''I am Bob'', timestamp = 1\<rparr>]\<rparr>,
      Inl IndexError)"
  by (simp add: str_defs route_defs)

text \<open>
  Claim C8 says that every chat turn on a session in a defined stage appends one user
  record and then one assistant record. On the new session (stage \<open>intro\<close>) the turn
  \<open>I'm Ravi\<close> appends the user record only: the route raises \<open>IndexError\<close> before a
  reply is computed, so no assistant record is stored.
\<close>

theorem im_turn_appends_no_reply:
  "stage new_session = ''intro''
   \<and> messages (fst (chat_send 1 2 ''2026-01-01'' new_session ''I'm Ravi''))
       = messages new_session @ [Some \<lparr>role = ''user'', content = ''I'm Ravi'', timestamp = 1\<rparr>]
   \<and> snd (chat_send 1 2 ''2026-01-01'' new_session ''I'm Ravi'') = Inl IndexError"
  by (simp add: str_defs route_defs)


section \<open>The stages \<open>verification\<close> and \<open>complete\<close>\<close>

text \<open>
  Claim C9, as amended: for every session in stage \<open>verification\<close>, a text event leaves
  every field of the session unchanged except \<open>messages\<close>, to which the user's record and
  the reminder to upload the KYC documents are appended; for every session in stage
  \<open>complete\<close>, a text event leaves every field unchanged except \<open>messages\<close>, to which
  the user's record and the "how else can I help" reply are appended. The stage returned is
  the stage the session had.
\<close>

theorem verification_and_complete_only_append:
  "(stage s = ''verification'' \<longrightarrow>
      chat_send t_user t_reply today s msg =
        (s\<lparr>messages := messages s @ [Some \<lparr>role = ''user'', content = msg, timestamp = t_user\<rparr>,
                                       Some (system_message t_reply kyc_reminder)]\<rparr>,
         Inr \<lparr>reply = Some (system_message t_reply kyc_reminder), new_stage = ''verification''\<rparr>))
   \<and> (stage s = ''complete'' \<longrightarrow>
      chat_send t_user t_reply today s msg =
        (s\<lparr>messages := messages s @ [Some \<lparr>role = ''user'', content = msg, timestamp = t_user\<rparr>,
                                       Some (system_message t_reply how_else)]\<rparr>,
         Inr \<lparr>reply = Some (system_message t_reply how_else), new_stage = ''complete''\<rparr>))"
  by (simp add: chat_send_def push_message_def Let_def)

text \<open>The theorem at a session in each of the two stages, with the message \<open>hello\<close>.\<close>

theorem verification_and_complete_only_append_witness:
  "stage (new_session\<lparr>stage := ''verification''\<rparr>) = ''verification''
   \<and> chat_send 1 2 ''2026-01-01''
         (new_session\<lparr>stage := ''verification''\<rparr>) ''hello'' =
        (new_session\<lparr>stage := ''verification'',
                     messages := [Some \<lparr>role = ''user'', content = ''hello'', timestamp = 1\<rparr>,
                                  Some (system_message 2 kyc_reminder)]\<rparr>,
         Inr \<lparr>reply = Some (system_message 2 kyc_reminder), new_stage = ''verification''\<rparr>)
   \<and> stage (new_session\<lparr>stage := ''complete''\<rparr>) = ''complete''
   \<and> chat_send 1 2 ''2026-01-01''
         (new_session\<lparr>stage := ''complete''\<rparr>) ''hello'' =
        (new_session\<lparr>stage := ''complete'',
                     messages := [Some \<lparr>role = ''user'', content = ''hello'', timestamp = 1\<rparr>,
                                  Some (system_message 2 how_else)]\<rparr>,
         Inr \<lparr>reply = Some (system_message 2 how_else), new_stage = ''complete''\<rparr>)"
  using verification_and_complete_only_append
          [of "new_session\<lparr>stage := ''verification''\<rparr>" 1 2 "''2026-01-01''" "''hello''"]
        verification_and_complete_only_append
          [of "new_session\<lparr>stage := ''complete''\<rparr>" 1 2 "''2026-01-01''" "''hello''"]
  by (simp add: new_session_def)

text \<open>
  The claim as first stated covers any event on a session in stage \<open>complete\<close>. A KYC
  upload is an event the route accepts in every stage: on a session in stage \<open>complete\<close>
  it stores the \<open>kyc\<close> entry and sets the stage to \<open>underwriting\<close>.
\<close>

theorem upload_on_complete_session_counterexample:
  "stage (new_session\<lparr>stage := ''complete''\<rparr>) = ''complete''
   \<and> stage (fst (verification_upload 9 (new_session\<lparr>stage := ''complete''\<rparr>)
         \<lparr>filename = ''pan.png'', content_type = ''image/png'', content_length = 20480\<rparr>
         \<lparr>filename = ''aadhaar.pdf'', content_type = ''application/pdf'', content_length = 20480\<rparr>))
       = ''underwriting''
   \<and> kyc (fst (verification_upload 9 (new_session\<lparr>stage := ''complete''\<rparr>)
         \<lparr>filename = ''pan.png'', content_type = ''image/png'', content_length = 20480\<rparr>
         \<lparr>filename = ''aadhaar.pdf'', content_type = ''application/pdf'', content_length = 20480\<rparr>))
       \<noteq> kyc (new_session\<lparr>stage := ''complete''\<rparr>)"
  by (simp add: verification_upload_def push_message_def new_session_def allowed_def Let_def)


section \<open>A turn in stage \<open>underwriting\<close>\<close>

text \<open>
  The session after a turn in stage \<open>underwriting\<close> whose text holds a positive number,
  and the entries of the offer computed from an income and the requested amount.
\<close>

lemma underwriting_step:
  assumes "stage s = ''underwriting''" and "parse_int (strip msg) = Some income" and "0 < income"
  shows "fst (chat_send t_user t_reply today s msg) =
           s\<lparr>monthly_income := Some income,
             offer := make_offer income (requested_amount s),
             stage := ''sanction'',
             messages := messages s @ [Some \<lparr>role = ''user'', content = msg, timestamp = t_user\<rparr>,
               Some (system_message t_reply
                 (if status (make_offer income (requested_amount s)) = Some ''approved''
                  then eligible_reply (get0 (approved (make_offer income (requested_amount s))))
                  else rejected_reply))]\<rparr>"
  using assms
  by (simp add: chat_send_def chat_underwriting_def push_message_def truthy_nat_def Let_def)

lemma make_offer_fields:
  "requested (make_offer income r)
     = Some (if r = None \<or> r = Some 0 then min (income * 20) 500000 else the r)"
  "approved (make_offer income r)
     = Some (min (if r = None \<or> r = Some 0 then min (income * 20) 500000 else the r)
                 (min (income * 20) 500000))"
  "status (make_offer income r)
     = Some (if 25000 \<le> income
                \<and> 0 < min (if r = None \<or> r = Some 0 then min (income * 20) 500000 else the r)
                           (min (income * 20) 500000)
             then ''approved'' else ''rejected'')"
  "rate (make_offer income r)
     = Some (if 300000 \<le> get0 (approved (make_offer income r)) then Tenths 140 else Tenths 160)"
  "tenure_months (make_offer income r)
     = Some (if 300000 \<le> get0 (approved (make_offer income r)) then 48 else 36)"
  "processing_fee (make_offer income r)
     = Some (max 1999 (get0 (approved (make_offer income r)) div 100))"
  by (cases r; simp add: make_offer_def truthy_nat_def get0_def Let_def)+

lemma parse_30000: "parse_int (strip ''30000'') = Some 30000"
  by (simp add: str_defs parse_int_def max_str_digits_def)

lemma parse_20000: "parse_int (strip ''20000'') = Some 20000"
  by (simp add: str_defs parse_int_def max_str_digits_def)

text \<open>
  The requested amount of a session is never zero: the chat route is the only one that
  writes it, under the guard \<open>if amt:\<close> (lines 153-154), and a new session has none.
\<close>

lemma requested_amount_step:
  "requested_amount s \<noteq> Some 0 \<Longrightarrow> requested_amount (apply_op x s) \<noteq> Some 0"
proof (cases x)
  case (ChatSend t_user t_reply today msg)
  assume "requested_amount s \<noteq> Some 0"
  then show ?thesis
    by (simp add: ChatSend chat_send_def chat_intro_def chat_underwriting_def chat_sanction_def
        push_message_def truthy_nat_def Let_def split: sum.splits option.splits)
next
  case (KycUpload now p a)
  assume "requested_amount s \<noteq> Some 0"
  then show ?thesis
    by (simp add: KycUpload verification_upload_def push_message_def Let_def split: option.splits)
next
  case (GenerateSanction today)
  assume "requested_amount s \<noteq> Some 0"
  then show ?thesis
    by (simp add: GenerateSanction generate_sanction_def Let_def)
qed

lemma requested_amount_run:
  "requested_amount s \<noteq> Some 0 \<Longrightarrow> requested_amount (run ops s) \<noteq> Some 0"
  by (induction ops arbitrary: s) (simp_all add: requested_amount_step)

text \<open>
  Claim C3: for every session in stage \<open>underwriting\<close> and every text whose first run of
  digits is a positive income, the turn sets \<open>monthly_income\<close> to that income and stores an
  offer with \<open>max_amount = min (income * 20) 500000\<close>, \<open>requested\<close> the session's
  \<open>requested_amount\<close> if it is set and \<open>max_amount\<close> otherwise,
  \<open>approved = min requested max_amount\<close>, and status \<open>approved\<close> if and only if the
  income is at least 25000 and \<open>approved\<close> is positive (\<open>rejected\<close> otherwise); the stage
  becomes \<open>sanction\<close> whatever the status.
  The sessions are those whose requested amount is not zero, and these are all the sessions
  there are: whatever operations are run on a new session (as the schema makes it, or with
  the welcome message of the start route), its requested amount is not zero.
\<close>

theorem underwriting_offer:
  "requested_amount (run ops new_session) \<noteq> Some 0
   \<and> requested_amount (run ops (start_session now)) \<noteq> Some 0
   \<and> (stage s = ''underwriting'' \<and> requested_amount s \<noteq> Some 0
        \<and> parse_int (strip msg) = Some income \<and> 0 < income \<longrightarrow>
          monthly_income (fst (chat_send t_user t_reply today s msg)) = Some income
        \<and> requested (offer (fst (chat_send t_user t_reply today s msg)))
            = Some (case requested_amount s of
                      Some r \<Rightarrow> r | None \<Rightarrow> min (income * 20) 500000)
        \<and> approved (offer (fst (chat_send t_user t_reply today s msg)))
            = Some (min (case requested_amount s of
                           Some r \<Rightarrow> r | None \<Rightarrow> min (income * 20) 500000)
                        (min (income * 20) 500000))
        \<and> status (offer (fst (chat_send t_user t_reply today s msg)))
            = Some (if 25000 \<le> income
                       \<and> 0 < min (case requested_amount s of
                                     Some r \<Rightarrow> r | None \<Rightarrow> min (income * 20) 500000)
                                  (min (income * 20) 500000)
                    then ''approved'' else ''rejected'')
        \<and> stage (fst (chat_send t_user t_reply today s msg)) = ''sanction'')"
proof (intro conjI impI)
  show "requested_amount (run ops new_session) \<noteq> Some 0"
    by (rule requested_amount_run) (simp add: new_session_def)
  show "requested_amount (run ops (start_session now)) \<noteq> Some 0"
    by (rule requested_amount_run) (simp add: start_session_def push_message_def new_session_def)
next
  assume a: "stage s = ''underwriting'' \<and> requested_amount s \<noteq> Some 0
        \<and> parse_int (strip msg) = Some income \<and> 0 < income"
  then have st: "stage s = ''underwriting''" and nz: "requested_amount s \<noteq> Some 0"
    and pi: "parse_int (strip msg) = Some income" and pos: "0 < income"
    by simp_all
  have off: "offer (fst (chat_send t_user t_reply today s msg))
               = make_offer income (requested_amount s)"
    by (simp add: underwriting_step [OF st pi pos])
  have req: "(if requested_amount s = None \<or> requested_amount s = Some 0
              then min (income * 20) 500000 else the (requested_amount s))
             = (case requested_amount s of Some r \<Rightarrow> r | None \<Rightarrow> min (income * 20) 500000)"
    using nz by (cases "requested_amount s") simp_all
  show "monthly_income (fst (chat_send t_user t_reply today s msg)) = Some income"
    by (simp add: underwriting_step [OF st pi pos])
  show "stage (fst (chat_send t_user t_reply today s msg)) = ''sanction''"
    by (simp add: underwriting_step [OF st pi pos])
  show "requested (offer (fst (chat_send t_user t_reply today s msg)))
            = Some (case requested_amount s of
                      Some r \<Rightarrow> r | None \<Rightarrow> min (income * 20) 500000)"
    unfolding off make_offer_fields req ..
  show "approved (offer (fst (chat_send t_user t_reply today s msg)))
            = Some (min (case requested_amount s of
                           Some r \<Rightarrow> r | None \<Rightarrow> min (income * 20) 500000)
                        (min (income * 20) 500000))"
    unfolding off make_offer_fields req ..
  show "status (offer (fst (chat_send t_user t_reply today s msg)))
            = Some (if 25000 \<le> income
                       \<and> 0 < min (case requested_amount s of
                                     Some r \<Rightarrow> r | None \<Rightarrow> min (income * 20) 500000)
                                  (min (income * 20) 500000)
                    then ''approved'' else ''rejected'')"
    unfolding off make_offer_fields req ..
qed

text \<open>
  The theorem on the session of a conversation (600000 requested, the two documents
  uploaded) at income 30000: the cap of 500000 is approved. And on a session with no amount
  requested at income 20000: rejected, and the stage is \<open>sanction\<close> all the same.
\<close>

theorem underwriting_offer_witness:
  "(stage (run [ChatSend 1 2 ''2026-01-01'' ''Ravi Kumar 600000'',
                KycUpload 3 \<lparr>filename = ''pan.png'', content_type = ''image/png'',
                              content_length = 20480\<rparr>
                            \<lparr>filename = ''aadhaar.pdf'', content_type = ''application/pdf'',
                              content_length = 20480\<rparr>]
               (start_session 0)) = ''underwriting''
    \<and> requested_amount (run [ChatSend 1 2 ''2026-01-01'' ''Ravi Kumar 600000'',
                KycUpload 3 \<lparr>filename = ''pan.png'', content_type = ''image/png'',
                              content_length = 20480\<rparr>
                            \<lparr>filename = ''aadhaar.pdf'', content_type = ''application/pdf'',
                              content_length = 20480\<rparr>]
               (start_session 0)) = Some 600000
    \<and> parse_int (strip ''30000'') = Some 30000
    \<and> monthly_income (fst (chat_send 4 5 ''2026-01-01''
          (run [ChatSend 1 2 ''2026-01-01'' ''Ravi Kumar 600000'',
                KycUpload 3 \<lparr>filename = ''pan.png'', content_type = ''image/png'',
                              content_length = 20480\<rparr>
                            \<lparr>filename = ''aadhaar.pdf'', content_type = ''application/pdf'',
                              content_length = 20480\<rparr>]
               (start_session 0)) ''30000'')) = Some 30000
    \<and> requested (offer (fst (chat_send 4 5 ''2026-01-01''
          (run [ChatSend 1 2 ''2026-01-01'' ''Ravi Kumar 600000'',
                KycUpload 3 \<lparr>filename = ''pan.png'', content_type = ''image/png'',
                              content_length = 20480\<rparr>
                            \<lparr>filename = ''aadhaar.pdf'', content_type = ''application/pdf'',
                              content_length = 20480\<rparr>]
               (start_session 0)) ''30000''))) = Some 600000
    \<and> approved (offer (fst (chat_send 4 5 ''2026-01-01''
          (run [ChatSend 1 2 ''2026-01-01'' ''Ravi Kumar 600000'',
                KycUpload 3 \<lparr>filename = ''pan.png'', content_type = ''image/png'',
                              content_length = 20480\<rparr>
                            \<lparr>filename = ''aadhaar.pdf'', content_type = ''application/pdf'',
                              content_length = 20480\<rparr>]
               (start_session 0)) ''30000''))) = Some 500000
    \<and> status (offer (fst (chat_send 4 5 ''2026-01-01''
          (run [ChatSend 1 2 ''2026-01-01'' ''Ravi Kumar 600000'',
                KycUpload 3 \<lparr>filename = ''pan.png'', content_type = ''image/png'',
                              content_length = 20480\<rparr>
                            \<lparr>filename = ''aadhaar.pdf'', content_type = ''application/pdf'',
                              content_length = 20480\<rparr>]
               (start_session 0)) ''30000''))) = Some ''approved''
    \<and> stage (fst (chat_send 4 5 ''2026-01-01''
          (run [ChatSend 1 2 ''2026-01-01'' ''Ravi Kumar 600000'',
                KycUpload 3 \<lparr>filename = ''pan.png'', content_type = ''image/png'',
                              content_length = 20480\<rparr>
                            \<lparr>filename = ''aadhaar.pdf'', content_type = ''application/pdf'',
                              content_length = 20480\<rparr>]
               (start_session 0)) ''30000'')) = ''sanction'')
   \<and> (stage (new_session\<lparr>stage := ''underwriting''\<rparr>) = ''underwriting''
    \<and> requested_amount (new_session\<lparr>stage := ''underwriting''\<rparr>) = None
    \<and> parse_int (strip ''20000'') = Some 20000
    \<and> requested (offer (fst (chat_send 4 5 ''2026-01-01''
          (new_session\<lparr>stage := ''underwriting''\<rparr>) ''20000''))) = Some 400000
    \<and> approved (offer (fst (chat_send 4 5 ''2026-01-01''
          (new_session\<lparr>stage := ''underwriting''\<rparr>) ''20000''))) = Some 400000
    \<and> status (offer (fst (chat_send 4 5 ''2026-01-01''
          (new_session\<lparr>stage := ''underwriting''\<rparr>) ''20000''))) = Some ''rejected''
    \<and> stage (fst (chat_send 4 5 ''2026-01-01''
          (new_session\<lparr>stage := ''underwriting''\<rparr>) ''20000'')) = ''sanction'')"
proof -
  have st: "stage (run [ChatSend 1 2 ''2026-01-01'' ''Ravi Kumar 600000'',
                KycUpload 3 \<lparr>filename = ''pan.png'', content_type = ''image/png'',
                              content_length = 20480\<rparr>
                            \<lparr>filename = ''aadhaar.pdf'', content_type = ''application/pdf'',
                              content_length = 20480\<rparr>]
               (start_session 0)) = ''underwriting''"
    and ra: "requested_amount (run [ChatSend 1 2 ''2026-01-01'' ''Ravi Kumar 600000'',
                KycUpload 3 \<lparr>filename = ''pan.png'', content_type = ''image/png'',
                              content_length = 20480\<rparr>
                            \<lparr>filename = ''aadhaar.pdf'', content_type = ''application/pdf'',
                              content_length = 20480\<rparr>]
               (start_session 0)) = Some 600000"
    by (simp_all add: str_defs route_defs)
  show ?thesis
    using underwriting_offer [where s = "run [ChatSend 1 2 ''2026-01-01'' ''Ravi Kumar 600000'',
                KycUpload 3 \<lparr>filename = ''pan.png'', content_type = ''image/png'',
                              content_length = 20480\<rparr>
                            \<lparr>filename = ''aadhaar.pdf'', content_type = ''application/pdf'',
                              content_length = 20480\<rparr>]
               (start_session 0)"
            and msg = "''30000''" and income = 30000 and t_user = 4 and t_reply = 5
            and today = "''2026-01-01''" and ops = "[]" and now = 0]
          underwriting_offer [where s = "new_session\<lparr>stage := ''underwriting''\<rparr>"
            and msg = "''20000''" and income = 20000 and t_user = 4 and t_reply = 5
            and today = "''2026-01-01''" and ops = "[]" and now = 0]
          st ra parse_30000 parse_20000
    by (simp add: new_session_def)
qed

text \<open>
  Claim C5: for every offer computed in stage \<open>underwriting\<close>, with \<open>a\<close> its approved
  amount, the rate is 14.0 and the tenure 48 months when \<open>a \<ge> 300000\<close>, the rate is 16.0
  and the tenure 36 months otherwise, and the processing fee is the larger of 1999 and the
  hundredth part of \<open>a\<close>, rounded down.
\<close>

theorem offer_terms:
  assumes "stage s = ''underwriting''" and "parse_int (strip msg) = Some income" and "0 < income"
  shows "\<exists>a. approved (offer (fst (chat_send t_user t_reply today s msg))) = Some a
           \<and> rate (offer (fst (chat_send t_user t_reply today s msg)))
               = Some (if 300000 \<le> a then Tenths 140 else Tenths 160)
           \<and> tenure_months (offer (fst (chat_send t_user t_reply today s msg)))
               = Some (if 300000 \<le> a then 48 else 36)
           \<and> processing_fee (offer (fst (chat_send t_user t_reply today s msg)))
               = Some (max 1999 (a div 100))"
proof -
  have off: "offer (fst (chat_send t_user t_reply today s msg)) = make_offer income (requested_amount s)"
    by (simp add: underwriting_step [OF assms])
  show ?thesis
    unfolding off by (simp only: make_offer_fields get0_def option.simps simp_thms ex_simps)
qed

text \<open>
  The theorem at income 30000 and the approved amounts 50000 (fee 1999), 400000 (fee 4000),
  300000 (rate 14.0, 48 months) and 299999 (rate 16.0, 36 months).
\<close>

theorem offer_terms_witness:
  "(approved (offer (fst (chat_send 1 2 ''2026-01-01''
        (new_session\<lparr>stage := ''underwriting'', requested_amount := Some 50000\<rparr>) ''30000'')))
      = Some 50000
    \<and> processing_fee (offer (fst (chat_send 1 2 ''2026-01-01''
          (new_session\<lparr>stage := ''underwriting'', requested_amount := Some 50000\<rparr>) ''30000'')))
        = Some 1999)
   \<and> (approved (offer (fst (chat_send 1 2 ''2026-01-01''
         (new_session\<lparr>stage := ''underwriting'', requested_amount := Some 400000\<rparr>) ''30000'')))
       = Some 400000
    \<and> processing_fee (offer (fst (chat_send 1 2 ''2026-01-01''
          (new_session\<lparr>stage := ''underwriting'', requested_amount := Some 400000\<rparr>) ''30000'')))
        = Some 4000)
   \<and> (approved (offer (fst (chat_send 1 2 ''2026-01-01''
         (new_session\<lparr>stage := ''underwriting'', requested_amount := Some 300000\<rparr>) ''30000'')))
       = Some 300000
    \<and> rate (offer (fst (chat_send 1 2 ''2026-01-01''
          (new_session\<lparr>stage := ''underwriting'', requested_amount := Some 300000\<rparr>) ''30000'')))
        = Some (Tenths 140)
    \<and> tenure_months (offer (fst (chat_send 1 2 ''2026-01-01''
          (new_session\<lparr>stage := ''underwriting'', requested_amount := Some 300000\<rparr>) ''30000'')))
        = Some 48)
   \<and> (approved (offer (fst (chat_send 1 2 ''2026-01-01''
         (new_session\<lparr>stage := ''underwriting'', requested_amount := Some 299999\<rparr>) ''30000'')))
       = Some 299999
    \<and> rate (offer (fst (chat_send 1 2 ''2026-01-01''
          (new_session\<lparr>stage := ''underwriting'', requested_amount := Some 299999\<rparr>) ''30000'')))
        = Some (Tenths 160)
    \<and> tenure_months (offer (fst (chat_send 1 2 ''2026-01-01''
          (new_session\<lparr>stage := ''underwriting'', requested_amount := Some 299999\<rparr>) ''30000'')))
        = Some 36)"
proof -
  have a: "approved (offer (fst (chat_send 1 2 ''2026-01-01''
        (new_session\<lparr>stage := ''underwriting'', requested_amount := Some r\<rparr>) ''30000'')))
      = Some (min r 500000)"
    if "0 < r" for r
    using that underwriting_step [OF _ parse_30000, of
          "new_session\<lparr>stage := ''underwriting'', requested_amount := Some r\<rparr>"
          1 2 "''2026-01-01''"]
    by (simp add: new_session_def make_offer_fields)
  show ?thesis
    using offer_terms [OF _ parse_30000, of
          "new_session\<lparr>stage := ''underwriting'', requested_amount := Some 50000\<rparr>"
          1 2 "''2026-01-01''"]
          offer_terms [OF _ parse_30000, of
                "new_session\<lparr>stage := ''underwriting'', requested_amount := Some 400000\<rparr>"
                1 2 "''2026-01-01''"]
          offer_terms [OF _ parse_30000, of
                "new_session\<lparr>stage := ''underwriting'', requested_amount := Some 300000\<rparr>"
                1 2 "''2026-01-01''"]
          offer_terms [OF _ parse_30000, of
                "new_session\<lparr>stage := ''underwriting'', requested_amount := Some 299999\<rparr>"
                1 2 "''2026-01-01''"]
          a [of 50000] a [of 400000] a [of 300000] a [of 299999]
    by (simp add: new_session_def)
qed

section \<open>A number that is zero\<close>

text \<open>
  Claim C10: a message whose first run of digits reads as 0 is treated as a message with no
  number. In stage \<open>intro\<close> the turn leaves \<open>requested_amount\<close> as it was, and when no
  name is found either, nothing but \<open>messages\<close> changes and the reply asks for the name and
  the amount again. In stage \<open>underwriting\<close> nothing but \<open>messages\<close> changes
  (\<open>monthly_income\<close> and the offer are as they were) and the reply asks for the income.
\<close>

theorem zero_is_no_number:
  assumes "parse_int (strip msg) = Some 0"
  shows "(stage s = ''intro'' \<longrightarrow>
            requested_amount (fst (chat_send t_user t_reply today s msg)) = requested_amount s)
       \<and> (stage s = ''intro'' \<and> extract_name (strip msg) = Inr None \<longrightarrow>
            chat_send t_user t_reply today s msg =
              (s\<lparr>messages := messages s @ [Some \<lparr>role = ''user'', content = msg, timestamp = t_user\<rparr>,
                                             Some (system_message t_reply ask_name_amount)]\<rparr>,
               Inr \<lparr>reply = Some (system_message t_reply ask_name_amount), new_stage = ''intro''\<rparr>))
       \<and> (stage s = ''underwriting'' \<longrightarrow>
            chat_send t_user t_reply today s msg =
              (s\<lparr>messages := messages s @ [Some \<lparr>role = ''user'', content = msg, timestamp = t_user\<rparr>,
                                             Some (system_message t_reply ask_income)]\<rparr>,
               Inr \<lparr>reply = Some (system_message t_reply ask_income), new_stage = ''underwriting''\<rparr>))"
  using assms
  by (simp add: chat_send_def chat_intro_def chat_underwriting_def push_message_def truthy_nat_def
      truthy_str_def Let_def split: sum.splits option.splits)

text \<open>The theorem at the message \<open>0\<close>, in each of the two stages.\<close>

theorem zero_is_no_number_witness:
  "parse_int (strip ''0'') = Some 0
   \<and> stage new_session = ''intro''
   \<and> requested_amount (fst (chat_send 1 2 ''2026-01-01'' new_session ''0'')) = None
   \<and> extract_name (strip ''0'') = Inr None
   \<and> chat_send 1 2 ''2026-01-01'' new_session ''0'' =
        (new_session\<lparr>messages := [Some \<lparr>role = ''user'', content = ''0'', timestamp = 1\<rparr>,
                                     Some (system_message 2 ask_name_amount)]\<rparr>,
         Inr \<lparr>reply = Some (system_message 2 ask_name_amount), new_stage = ''intro''\<rparr>)
   \<and> stage (new_session\<lparr>stage := ''underwriting''\<rparr>) = ''underwriting''
   \<and> chat_send 1 2 ''2026-01-01''
         (new_session\<lparr>stage := ''underwriting''\<rparr>) ''0'' =
        (new_session\<lparr>stage := ''underwriting'',
                     messages := [Some \<lparr>role = ''user'', content = ''0'', timestamp = 1\<rparr>,
                                  Some (system_message 2 ask_income)]\<rparr>,
         Inr \<lparr>reply = Some (system_message 2 ask_income), new_stage = ''underwriting''\<rparr>)"
proof -
  have p: "parse_int (strip ''0'') = Some 0"
    by (simp add: str_defs parse_int_def max_str_digits_def)
  have e: "extract_name (strip ''0'') = Inr None"
    by (simp add: str_defs extract_name_def Let_def)
  show ?thesis
    using zero_is_no_number [OF p, of new_session 1 2 "''2026-01-01''"]
          zero_is_no_number [OF p, of
                "new_session\<lparr>stage := ''underwriting''\<rparr>" 1 2 "''2026-01-01''"]
          p e
    by (simp add: new_session_def)
qed

section \<open>A turn in stage \<open>sanction\<close>\<close>

text \<open>
  Claim C6: for every session in stage \<open>sanction\<close>, if the lower-cased text contains one
  of \<open>yes\<close>, \<open>ok\<close>, \<open>proceed\<close>, \<open>generate\<close>, \<open>sure\<close>, the offer letter is
  generated from the session's name and offer, it is stored in the \<open>letter\<close> entry of the
  offer, the stage becomes \<open>complete\<close> and the reply confirms the generation; for every
  other text nothing but \<open>messages\<close> changes, the stage stays \<open>sanction\<close> and the reply
  asks for the confirmation.
\<close>

theorem sanction_turn:
  assumes "stage s = ''sanction''"
  shows "(if contains ''yes'' (lower (strip msg)) \<or> contains ''ok'' (lower (strip msg))
             \<or> contains ''proceed'' (lower (strip msg)) \<or> contains ''generate'' (lower (strip msg))
             \<or> contains ''sure'' (lower (strip msg))
          then chat_send t_user t_reply today s msg =
              (s\<lparr>messages := messages s @ [Some \<lparr>role = ''user'', content = msg, timestamp = t_user\<rparr>,
                                             Some (system_message t_reply letter_ready)],
                 offer := (offer s)\<lparr>letter :=
                    Some (generate_offer_letter (name_text (customer_name s)) (offer s) today)\<rparr>,
                 stage := ''complete''\<rparr>,
               Inr \<lparr>reply = Some (system_message t_reply letter_ready), new_stage = ''complete''\<rparr>)
          else chat_send t_user t_reply today s msg =
              (s\<lparr>messages := messages s @ [Some \<lparr>role = ''user'', content = msg, timestamp = t_user\<rparr>,
                                             Some (system_message t_reply say_yes)]\<rparr>,
               Inr \<lparr>reply = Some (system_message t_reply say_yes), new_stage = ''sanction''\<rparr>))"
  using assms
  by (simp add: chat_send_def chat_sanction_def confirm_words_def push_message_def Let_def)

text \<open>The theorem at the messages \<open>Yes, please\<close> and \<open>not now\<close>.\<close>

theorem sanction_turn_witness:
  "stage (new_session\<lparr>stage := ''sanction'', customer_name := Str ''Ravi Kumar'',
               offer := make_offer 30000 (Some 500000)\<rparr>) = ''sanction''
   \<and> chat_send 1 2 ''2026-01-01''
         (new_session\<lparr>stage := ''sanction'', customer_name := Str ''Ravi Kumar'',
                      offer := make_offer 30000 (Some 500000)\<rparr>) ''Yes, please'' =
        (new_session\<lparr>stage := ''complete'', customer_name := Str ''Ravi Kumar'',
           offer := (make_offer 30000 (Some 500000))\<lparr>letter :=
              Some (generate_offer_letter ''Ravi Kumar'' (make_offer 30000 (Some 500000)) ''2026-01-01'')\<rparr>,
           messages := [Some \<lparr>role = ''user'', content = ''Yes, please'', timestamp = 1\<rparr>,
                        Some (system_message 2 letter_ready)]\<rparr>,
         Inr \<lparr>reply = Some (system_message 2 letter_ready), new_stage = ''complete''\<rparr>)
   \<and> chat_send 1 2 ''2026-01-01''
         (new_session\<lparr>stage := ''sanction'', customer_name := Str ''Ravi Kumar'',
                      offer := make_offer 30000 (Some 500000)\<rparr>) ''not now'' =
        (new_session\<lparr>stage := ''sanction'', customer_name := Str ''Ravi Kumar'',
           offer := make_offer 30000 (Some 500000),
           messages := [Some \<lparr>role = ''user'', content = ''not now'', timestamp = 1\<rparr>,
                        Some (system_message 2 say_yes)]\<rparr>,
         Inr \<lparr>reply = Some (system_message 2 say_yes), new_stage = ''sanction''\<rparr>)"
  using sanction_turn [of
        "new_session\<lparr>stage := ''sanction'', customer_name := Str ''Ravi Kumar'',
                     offer := make_offer 30000 (Some 500000)\<rparr>" "''Yes, please''"
        1 2 "''2026-01-01''"]
        sanction_turn [of
              "new_session\<lparr>stage := ''sanction'', customer_name := Str ''Ravi Kumar'',
                           offer := make_offer 30000 (Some 500000)\<rparr>" "''not now''"
              1 2 "''2026-01-01''"]
  by (simp add: str_defs new_session_def name_text_def)


section \<open>The order of the stages\<close>

text \<open>
  What a single operation does to the stage: a chat turn keeps it or moves it one step
  (\<open>intro\<close> to \<open>verification\<close>, \<open>underwriting\<close> to \<open>sanction\<close>, \<open>sanction\<close> to
  \<open>complete\<close>); an upload keeps it (a refused file) or sets it to \<open>underwriting\<close>; the
  sanction route sets it to \<open>complete\<close>.
\<close>

lemma chat_send_stage:
  "stage (fst (chat_send t_user t_reply today s msg)) = stage s
   \<or> (stage s = ''intro'' \<and> stage (fst (chat_send t_user t_reply today s msg)) = ''verification'')
   \<or> (stage s = ''underwriting'' \<and> stage (fst (chat_send t_user t_reply today s msg)) = ''sanction'')
   \<or> (stage s = ''sanction'' \<and> stage (fst (chat_send t_user t_reply today s msg)) = ''complete'')"
  by (simp add: chat_send_def chat_intro_def chat_underwriting_def chat_sanction_def
      push_message_def Let_def split: sum.splits)

lemma upload_stage:
  "stage (fst (verification_upload now s p a)) = stage s
   \<or> stage (fst (verification_upload now s p a)) = ''underwriting''"
  by (simp add: verification_upload_def push_message_def Let_def split: option.splits)

lemma sanction_stage: "stage (fst (generate_sanction today s)) = ''complete''"
  by (simp add: generate_sanction_def Let_def)

lemma stage_rank_cases:
  "stage_rank st = Some r \<Longrightarrow>
     (st = ''intro'' \<and> r = 0) \<or> (st = ''verification'' \<and> r = 1) \<or> (st = ''underwriting'' \<and> r = 2)
     \<or> (st = ''sanction'' \<and> r = 3) \<or> (st = ''complete'' \<and> r = 4)"
  by (simp add: stage_rank_def split: if_splits)

lemma stage_rank_values:
  "stage_rank ''intro'' = Some 0" "stage_rank ''verification'' = Some 1"
  "stage_rank ''underwriting'' = Some 2" "stage_rank ''sanction'' = Some 3"
  "stage_rank ''complete'' = Some 4"
  by (simp_all add: stage_rank_def)

lemma step_forward:
  assumes "stage_rank (stage s) = Some r"
    and "is_upload x \<Longrightarrow> stage s \<noteq> ''sanction'' \<and> stage s \<noteq> ''complete''"
  shows "\<exists>r'. stage_rank (stage (apply_op x s)) = Some r' \<and> r \<le> r'"
proof (cases x)
  case (ChatSend t_user t_reply today msg)
  show ?thesis
    using chat_send_stage [of t_user t_reply today s msg] stage_rank_cases [OF assms(1)] assms(1)
    by (auto simp add: ChatSend stage_rank_values)
next
  case (KycUpload now p a)
  show ?thesis
    using upload_stage [of now s p a] stage_rank_cases [OF assms(1)] assms
    by (auto simp add: KycUpload stage_rank_values)
next
  case (GenerateSanction today)
  show ?thesis
    using stage_rank_cases [OF assms(1)]
    by (auto simp add: GenerateSanction sanction_stage stage_rank_values)
qed

text \<open>
  Claim C2, as amended: for every session in one of the five stages and every sequence of
  operations (chat turn, KYC upload, sanction generation) in which no KYC upload is made on
  a session that has reached stage \<open>sanction\<close> or \<open>complete\<close>, the stage at the end is
  one of the five stages and is not earlier, in the order \<open>intro\<close>, \<open>verification\<close>,
  \<open>underwriting\<close>, \<open>sanction\<close>, \<open>complete\<close>, than the stage at the start. (Applied to
  the rest of a sequence from any point on, this is the statement for every step.)
\<close>

theorem stage_moves_forward:
  "stage_rank (stage s) = Some r \<Longrightarrow> uploads_before_sanction ops s \<Longrightarrow>
     \<exists>r'. stage_rank (stage (run ops s)) = Some r' \<and> r \<le> r'"
proof (induction ops arbitrary: s r)
  case Nil
  then show ?case by simp
next
  case (Cons x xs)
  from Cons.prems have g: "is_upload x \<Longrightarrow> stage s \<noteq> ''sanction'' \<and> stage s \<noteq> ''complete''"
    and rest: "uploads_before_sanction xs (apply_op x s)"
    by (simp_all split: if_splits)
  from step_forward [OF Cons.prems(1) g] obtain r1
    where r1: "stage_rank (stage (apply_op x s)) = Some r1" "r \<le> r1" by blast
  from Cons.IH [OF r1(1) rest] obtain r2
    where "stage_rank (stage (run xs (apply_op x s))) = Some r2" "r1 \<le> r2" by blast
  with r1(2) show ?case by auto
qed

text \<open>
  The theorem on a whole conversation, from the new session: name and amount, the upload
  of the two documents, the income, the confirmation.
\<close>

theorem stage_moves_forward_witness:
  "stage_rank (stage (start_session 0)) = Some 0
   \<and> uploads_before_sanction
        [ChatSend 1 2 ''2026-01-01'' ''Ravi Kumar 500000'',
         KycUpload 3 \<lparr>filename = ''pan.png'', content_type = ''image/png'', content_length = 20480\<rparr>
                     \<lparr>filename = ''aadhaar.pdf'', content_type = ''application/pdf'', content_length = 20480\<rparr>,
         ChatSend 4 5 ''2026-01-01'' ''30000'',
         ChatSend 6 7 ''2026-01-01'' ''yes'']
        (start_session 0)
   \<and> stage_rank (stage (run
        [ChatSend 1 2 ''2026-01-01'' ''Ravi Kumar 500000'',
         KycUpload 3 \<lparr>filename = ''pan.png'', content_type = ''image/png'', content_length = 20480\<rparr>
                     \<lparr>filename = ''aadhaar.pdf'', content_type = ''application/pdf'', content_length = 20480\<rparr>,
         ChatSend 4 5 ''2026-01-01'' ''30000'',
         ChatSend 6 7 ''2026-01-01'' ''yes'']
        (start_session 0))) = Some 4"
proof -
  have r: "stage_rank (stage (start_session 0)) = Some 0"
    by (simp add: route_defs)
  have g: "uploads_before_sanction
        [ChatSend 1 2 ''2026-01-01'' ''Ravi Kumar 500000'',
         KycUpload 3 \<lparr>filename = ''pan.png'', content_type = ''image/png'', content_length = 20480\<rparr>
                     \<lparr>filename = ''aadhaar.pdf'', content_type = ''application/pdf'', content_length = 20480\<rparr>,
         ChatSend 4 5 ''2026-01-01'' ''30000'',
         ChatSend 6 7 ''2026-01-01'' ''yes'']
        (start_session 0)"
    by (simp add: str_defs route_defs)
  have e: "stage (run
        [ChatSend 1 2 ''2026-01-01'' ''Ravi Kumar 500000'',
         KycUpload 3 \<lparr>filename = ''pan.png'', content_type = ''image/png'', content_length = 20480\<rparr>
                     \<lparr>filename = ''aadhaar.pdf'', content_type = ''application/pdf'', content_length = 20480\<rparr>,
         ChatSend 4 5 ''2026-01-01'' ''30000'',
         ChatSend 6 7 ''2026-01-01'' ''yes'']
        (start_session 0)) = ''complete''"
    by (simp add: str_defs route_defs)
  show ?thesis
    using stage_moves_forward [OF r g] r g e by (simp add: stage_rank_values)
qed

text \<open>
  The claim as first stated covers every sequence. The upload route has no check of the
  stage: the same conversation up to the income is in stage \<open>sanction\<close>, and a second
  upload then sets the stage back to \<open>underwriting\<close>.
\<close>

theorem upload_after_sanction_counterexample:
  "stage_rank (stage (run
        [ChatSend 1 2 ''2026-01-01'' ''Ravi Kumar 500000'',
         KycUpload 3 \<lparr>filename = ''pan.png'', content_type = ''image/png'', content_length = 20480\<rparr>
                     \<lparr>filename = ''aadhaar.pdf'', content_type = ''application/pdf'', content_length = 20480\<rparr>,
         ChatSend 4 5 ''2026-01-01'' ''30000'']
        (start_session 0))) = Some 3
   \<and> stage_rank (stage (run
        [ChatSend 1 2 ''2026-01-01'' ''Ravi Kumar 500000'',
         KycUpload 3 \<lparr>filename = ''pan.png'', content_type = ''image/png'', content_length = 20480\<rparr>
                     \<lparr>filename = ''aadhaar.pdf'', content_type = ''application/pdf'', content_length = 20480\<rparr>,
         ChatSend 4 5 ''2026-01-01'' ''30000'',
         KycUpload 6 \<lparr>filename = ''pan.png'', content_type = ''image/png'', content_length = 20480\<rparr>
                     \<lparr>filename = ''aadhaar.pdf'', content_type = ''application/pdf'', content_length = 20480\<rparr>]
        (start_session 0))) = Some 2"
  by (simp add: str_defs route_defs)


section \<open>The offer letter\<close>

text \<open>Substrings: a text occurs in every text built around it.\<close>

lemma contains_prefix: "prefix k s \<Longrightarrow> contains k s"
  by (cases s) auto

lemma contains_mid: "contains k (a @ k @ b)"
  by (induction a) (auto simp add: contains_prefix)

lemma contains_append_left: "contains k s \<Longrightarrow> contains k (a @ s)"
  by (induction a) auto

lemma contains_head: "contains k (k @ b)"
  using contains_mid [of k "[]" b] by simp

text \<open>
  The amount with separators is the decimal numeral of the amount with a comma put before
  every group of three digits: taking the commas out gives the numeral back.
\<close>

lemma digit_not_comma: "k < 10 \<Longrightarrow> ''0123456789'' ! k \<noteq> CHR '',''"
proof -
  assume "k < 10"
  then have "k \<in> {0, 1, 2, 3, 4, 5, 6, 7, 8, 9}" by auto
  then show ?thesis by auto
qed

lemma show_nat_no_comma: "CHR '','' \<notin> set (show_nat n)"
proof (induction n rule: show_nat.induct)
  case (1 n)
  show ?case
  proof (cases "n < 10")
    case True
    then show ?thesis using digit_not_comma [of n] by (simp add: show_nat.simps)
  next
    case False
    then show ?thesis
      using 1 digit_not_comma [of "n mod 10"] by (simp add: show_nat.simps [of n])
  qed
qed

lemma pad3_no_comma: "filter (\<lambda>c. c \<noteq> CHR '','') (pad3 n) = pad3 n"
  using digit_not_comma [of "n div 100 mod 10"] digit_not_comma [of "n div 10 mod 10"]
    digit_not_comma [of "n mod 10"]
  by (simp add: pad3_def)

lemma mod_1000_digits:
  "(n::nat) mod 1000 div 100 mod 10 = n div 100 mod 10"
  "(n::nat) mod 1000 div 10 mod 10 = n div 10 mod 10"
  "(n::nat) mod 1000 mod 10 = n mod 10"
proof -
  have "n mod 1000 = n mod (100 * 10)" by simp
  also have "\<dots> = 100 * (n div 100 mod 10) + n mod 100" by (rule mod_mult2_eq)
  finally have "n mod 1000 div 100 = n div 100 mod 10" by simp
  then show "n mod 1000 div 100 mod 10 = n div 100 mod 10" by simp
  have "n mod 1000 = n mod (10 * 100)" by simp
  also have "\<dots> = 10 * (n div 10 mod 100) + n mod 10" by (rule mod_mult2_eq)
  finally have "n mod 1000 div 10 = n div 10 mod 100" by simp
  then show "n mod 1000 div 10 mod 10 = n div 10 mod 10" by (simp add: mod_mod_cancel)
  show "n mod 1000 mod 10 = n mod 10" by (simp add: mod_mod_cancel)
qed

lemma show_nat_thousands:
  assumes "1000 \<le> n"
  shows "show_nat n = show_nat (n div 1000) @ pad3 (n mod 1000)"
proof -
  have a: "show_nat n = show_nat (n div 10) @ [''0123456789'' ! (n mod 10)]"
    using assms by (simp add: show_nat.simps [of n])
  have b: "show_nat (n div 10) = show_nat (n div 100) @ [''0123456789'' ! (n div 10 mod 10)]"
    using assms by (simp add: show_nat.simps [of "n div 10"] div_mult2_eq [symmetric])
  have c: "show_nat (n div 100) = show_nat (n div 1000) @ [''0123456789'' ! (n div 100 mod 10)]"
    using assms by (simp add: show_nat.simps [of "n div 100"] div_mult2_eq [symmetric])
  show ?thesis
    unfolding a b c pad3_def mod_1000_digits by (simp only: append_assoc append_Cons append_Nil)
qed

lemma commas_digits: "filter (\<lambda>c. c \<noteq> CHR '','') (commas n) = show_nat n"
proof (induction n rule: commas.induct)
  case (1 n)
  show ?case
  proof (cases "n < 1000")
    case True
    then show ?thesis
      using show_nat_no_comma [of n] by (auto simp add: commas.simps [of n] filter_id_conv)
  next
    case False
    then show ?thesis
      using 1 by (simp add: commas.simps [of n] pad3_no_comma show_nat_thousands)
  qed
qed

text \<open>The letter for an offer that is not empty, cut into its parts.\<close>

lemma letter_parts:
  assumes "off \<noteq> empty_offer"
  shows "generate_offer_letter name off today =
           (''LoanLens AI '' @ ndash @ '' Sanction Letter'' @ nl @ nl)
           @ (''Date: '' @ today)
           @ (nl)
           @ (''To, '' @ name)
           @ (nl @ nl @ ''We are pleased to sanction a personal loan with the following terms:'' @ nl)
           @ (''Approved Amount: '' @ rupee @ commas (get0 (approved off)))
           @ (nl)
           @ (''Interest Rate: '' @ show_rate (rate off) @ ''% p.a.'')
           @ (nl)
           @ (''Tenure: '' @ show_nat (get0 (tenure_months off)) @ '' months'')
           @ (nl)
           @ (''Processing Fee: '' @ rupee @ commas (get0 (processing_fee off)))
           @ (nl @ nl)
           @ ''This is a system-generated letter and does not require a signature.''
           @ nl"
  using assms by (simp add: generate_offer_letter_def offer_is_empty_def)

text \<open>
  Claim C7: for an empty offer the letter generator returns \<open>No offer available.\<close>; for
  every other offer and every name the letter holds the date, the name, the approved amount
  and the processing fee written with thousands separators, the interest rate, the tenure
  and the sentence that no signature is required. The letter is a function of the name, the
  offer and the date alone, and of the offer it reads the four terms only: a letter already
  stored in the offer does not change the text, so generating the letter of a session a
  second time on the same date returns the same text.
\<close>

theorem letter_contents:
  "generate_offer_letter name empty_offer today = ''No offer available.''
   \<and> (off \<noteq> empty_offer \<longrightarrow>
        (let doc = generate_offer_letter name off today in
           contains (''Date: '' @ today) doc
         \<and> contains (''To, '' @ name) doc
         \<and> contains (''Approved Amount: '' @ rupee @ commas (get0 (approved off))) doc
         \<and> contains (''Interest Rate: '' @ show_rate (rate off) @ ''% p.a.'') doc
         \<and> contains (''Tenure: '' @ show_nat (get0 (tenure_months off)) @ '' months'') doc
         \<and> contains (''Processing Fee: '' @ rupee @ commas (get0 (processing_fee off))) doc
         \<and> contains ''This is a system-generated letter and does not require a signature.'' doc
         \<and> generate_offer_letter name (off\<lparr>letter := Some l\<rparr>) today = doc))
   \<and> (offer s \<noteq> empty_offer \<longrightarrow>
        snd (generate_sanction today (fst (generate_sanction today s)))
          = snd (generate_sanction today s))
   \<and> filter (\<lambda>c. c \<noteq> CHR '','') (commas n) = show_nat n"
proof (intro conjI impI)
  show "generate_offer_letter name empty_offer today = ''No offer available.''"
    by (simp add: generate_offer_letter_def offer_is_empty_def)
  show "filter (\<lambda>c. c \<noteq> CHR '','') (commas n) = show_nat n"
    by (rule commas_digits)
  show "snd (generate_sanction today (fst (generate_sanction today s)))
          = snd (generate_sanction today s)" if "offer s \<noteq> empty_offer"
  proof -
    have "(offer s)\<lparr>letter := Some x\<rparr> \<noteq> empty_offer" for x
      by (cases "offer s") (simp add: empty_offer_def)
    with that show ?thesis
      by (simp add: generate_sanction_def generate_offer_letter_def offer_is_empty_def Let_def)
  qed
  show "let doc = generate_offer_letter name off today in
           contains (''Date: '' @ today) doc
         \<and> contains (''To, '' @ name) doc
         \<and> contains (''Approved Amount: '' @ rupee @ commas (get0 (approved off))) doc
         \<and> contains (''Interest Rate: '' @ show_rate (rate off) @ ''% p.a.'') doc
         \<and> contains (''Tenure: '' @ show_nat (get0 (tenure_months off)) @ '' months'') doc
         \<and> contains (''Processing Fee: '' @ rupee @ commas (get0 (processing_fee off))) doc
         \<and> contains ''This is a system-generated letter and does not require a signature.'' doc
         \<and> generate_offer_letter name (off\<lparr>letter := Some l\<rparr>) today = doc"
    if ne: "off \<noteq> empty_offer"
  proof -
    have ne': "off\<lparr>letter := Some l\<rparr> \<noteq> empty_offer"
      by (cases off) (simp add: empty_offer_def)
    have same: "generate_offer_letter name (off\<lparr>letter := Some l\<rparr>) today
                  = generate_offer_letter name off today"
      using ne ne' by (simp add: generate_offer_letter_def offer_is_empty_def)
    show ?thesis
      unfolding Let_def same letter_parts [OF ne]
      by (intro conjI refl contains_append_left contains_head)
  qed
qed

text \<open>
  The theorem at the name \<open>Ravi Kumar\<close>, the offer for an income of 30000 and a request
  of 500000, and the date 2026-01-01, with the whole text of the letter.
\<close>

theorem letter_contents_witness:
  "make_offer 30000 (Some 500000) \<noteq> empty_offer
   \<and> generate_offer_letter ''Ravi Kumar'' empty_offer ''2026-01-01'' = ''No offer available.''
   \<and> generate_offer_letter ''Ravi Kumar'' (make_offer 30000 (Some 500000)) ''2026-01-01'' =
        ''LoanLens AI '' @ ndash @ '' Sanction Letter'' @ nl @ nl
        @ ''Date: 2026-01-01'' @ nl
        @ ''To, Ravi Kumar'' @ nl @ nl
        @ ''We are pleased to sanction a personal loan with the following terms:'' @ nl
        @ ''Approved Amount: '' @ rupee @ ''500,000'' @ nl
        @ ''Interest Rate: 14.0% p.a.'' @ nl
        @ ''Tenure: 48 months'' @ nl
        @ ''Processing Fee: '' @ rupee @ ''5,000'' @ nl @ nl
        @ ''This is a system-generated letter and does not require a signature.'' @ nl
   \<and> contains (''Approved Amount: '' @ rupee @ ''500,000'')
        (generate_offer_letter ''Ravi Kumar'' (make_offer 30000 (Some 500000)) ''2026-01-01'')
   \<and> contains (''Processing Fee: '' @ rupee @ ''5,000'')
        (generate_offer_letter ''Ravi Kumar'' (make_offer 30000 (Some 500000)) ''2026-01-01'')
   \<and> generate_offer_letter ''Ravi Kumar''
         ((make_offer 30000 (Some 500000))\<lparr>letter := Some ''x''\<rparr>) ''2026-01-01''
        = generate_offer_letter ''Ravi Kumar'' (make_offer 30000 (Some 500000)) ''2026-01-01''
   \<and> snd (generate_sanction ''2026-01-01''
          (fst (generate_sanction ''2026-01-01''
             (new_session\<lparr>customer_name := Str ''Ravi Kumar'',
                          offer := make_offer 30000 (Some 500000)\<rparr>))))
        = snd (generate_sanction ''2026-01-01''
             (new_session\<lparr>customer_name := Str ''Ravi Kumar'',
                          offer := make_offer 30000 (Some 500000)\<rparr>))
   \<and> commas 1234567 = ''1,234,567''
   \<and> filter (\<lambda>c. c \<noteq> CHR '','') (commas 1234567) = show_nat 1234567"
proof -
  have ne: "make_offer 30000 (Some 500000) \<noteq> empty_offer"
    by (simp add: make_offer_def empty_offer_def Let_def)
  have terms: "get0 (approved (make_offer 30000 (Some 500000))) = 500000"
    "get0 (processing_fee (make_offer 30000 (Some 500000))) = 5000"
    by (simp_all add: make_offer_def truthy_nat_def get0_def Let_def)
  have shown: "commas 500000 = ''500,000''" "commas 5000 = ''5,000''"
    "commas 1234567 = ''1,234,567''"
    by (simp_all add: str_defs)
  have doc: "generate_offer_letter ''Ravi Kumar'' (make_offer 30000 (Some 500000)) ''2026-01-01'' =
        ''LoanLens AI '' @ ndash @ '' Sanction Letter'' @ nl @ nl
        @ ''Date: 2026-01-01'' @ nl
        @ ''To, Ravi Kumar'' @ nl @ nl
        @ ''We are pleased to sanction a personal loan with the following terms:'' @ nl
        @ ''Approved Amount: '' @ rupee @ ''500,000'' @ nl
        @ ''Interest Rate: 14.0% p.a.'' @ nl
        @ ''Tenure: 48 months'' @ nl
        @ ''Processing Fee: '' @ rupee @ ''5,000'' @ nl @ nl
        @ ''This is a system-generated letter and does not require a signature.'' @ nl"
    by (simp add: str_defs route_defs)
  have s: "offer
        (new_session\<lparr>customer_name := Str ''Ravi Kumar'', offer := make_offer 30000 (Some 500000)\<rparr>)
             = make_offer 30000 (Some 500000)"
    by simp
  from letter_contents [of "''Ravi Kumar''" "''2026-01-01''" "make_offer 30000 (Some 500000)" "''x''"
      "new_session\<lparr>customer_name := Str ''Ravi Kumar'', offer := make_offer 30000 (Some 500000)\<rparr>"
      1234567]
  show ?thesis
    unfolding Let_def s terms shown using ne doc shown(3) by blast
qed

text \<open>
  On a session whose offer is empty the sanction route stores the text
  \<open>No offer available.\<close> as the letter of the offer; the offer is not empty after that,
  and a second call renders a letter from it.
\<close>

lemma replay_on_empty_offer:
  "snd (generate_sanction ''2026-01-01'' new_session) = ''No offer available.''
   \<and> snd (generate_sanction ''2026-01-01'' (fst (generate_sanction ''2026-01-01'' new_session)))
       \<noteq> ''No offer available.''"
  by (simp add: str_defs route_defs)


section \<open>The name in stage \<open>intro\<close>\<close>

text \<open>A text in which the separator does not occur is not split.\<close>

lemma split1_no_match: "\<not> contains sep s \<Longrightarrow> split1 sep s = [s]"
  by (induction s) simp_all

text \<open>
  Claim C4 says that for a text that contains \<open>name is\<close>, \<open>i am\<close> or \<open>i'm\<close>, compared
  without regard to case, \<open>customer_name\<close> is set to the text following the first match of
  that keyword (white space collapsed, the first three words, title case). The code finds
  \<open>name is\<close> in the lowered text and then splits the text as typed at the first \<open>is\<close>
  (line 144): for \<open>this is Bob, my name is Bob Smith\<close> the first \<open>is\<close> is the one in
  \<open>this\<close>, and the name stored is \<open>Is Bob, My\<close>, where the text after the first match of
  \<open>name is\<close> gives \<open>Bob Smith\<close>. For \<open>MY NAME IS JANE DOE\<close> the typed text holds no
  \<open>is\<close>, the split has one element, and the turn raises \<open>IndexError\<close> with no name
  stored.
\<close>

theorem name_taken_after_first_is:
  "stage new_session = ''intro''
   \<and> contains ''name is'' (lower (strip ''this is Bob, my name is Bob Smith''))
   \<and> customer_name (fst (chat_send 1 2 ''2026-01-01'' new_session
         ''this is Bob, my name is Bob Smith'')) = Str ''Is Bob, My''
   \<and> stage (fst (chat_send 1 2 ''2026-01-01'' new_session
         ''this is Bob, my name is Bob Smith'')) = ''verification''
   \<and> contains ''name is'' (lower (strip ''MY NAME IS JANE DOE''))
   \<and> chat_send 1 2 ''2026-01-01'' new_session ''MY NAME IS JANE DOE'' =
        (new_session\<lparr>messages := [Some \<lparr>role = ''user'', content = ''MY NAME IS JANE DOE'',
                                            timestamp = 1\<rparr>]\<rparr>,
         Inl IndexError)"
proof -
  have first_is: "stage new_session = ''intro''
    \<and> contains ''name is'' (lower (strip ''this is Bob, my name is Bob Smith''))
    \<and> customer_name (fst (chat_send 1 2 ''2026-01-01'' new_session
         ''this is Bob, my name is Bob Smith'')) = Str ''Is Bob, My''
    \<and> stage (fst (chat_send 1 2 ''2026-01-01'' new_session
         ''this is Bob, my name is Bob Smith'')) = ''verification''"
    by (simp add: str_defs route_defs)
  have capitals: "contains ''name is'' (lower (strip ''MY NAME IS JANE DOE''))
    \<and> chat_send 1 2 ''2026-01-01'' new_session ''MY NAME IS JANE DOE'' =
        (new_session\<lparr>messages := [Some \<lparr>role = ''user'', content = ''MY NAME IS JANE DOE'',
                                            timestamp = 1\<rparr>]\<rparr>,
         Inl IndexError)"
    by (simp add: str_defs route_defs split1_no_match del: split1.simps)
  from first_is capitals show ?thesis by blast
qed

end
